theory Spec2Isabelle
  imports Complex_Main "HOL-Library.Word"
begin

unbundle bit_operations_syntax

section \<open>Machine types\<close>

type_synonym u8 = "8 word"
type_synonym u16 = "16 word"
type_synonym u32 = "32 word"

section \<open>FDCanMicroServer: DLC rounding and padding\<close>

text \<open>
  \<^verbatim>\<open>FDCanMicroServer::RoundUpDlc(size_t value)\<close>: a chain of early returns, ending in
  \<^verbatim>\<open>return 0\<close> for anything above 64. Sizes are \<^verbatim>\<open>size_t\<close>; no arithmetic is done on
  them, so they are natural numbers here.
\<close>

definition RoundUpDlc :: "nat \<Rightarrow> nat" where
  "RoundUpDlc v =
    (if v = 0 then 0
     else if v = 1 then 1
     else if v = 2 then 2
     else if v = 3 then 3
     else if v = 4 then 4
     else if v = 5 then 5
     else if v = 6 then 6
     else if v = 7 then 7
     else if v = 8 then 8
     else if v \<le> 12 then 12
     else if v \<le> 16 then 16
     else if v \<le> 20 then 20
     else if v \<le> 24 then 24
     else if v \<le> 32 then 32
     else if v \<le> 48 then 48
     else if v \<le> 64 then 64
     else 0)"

text \<open>The payload lengths an FDCAN frame can carry, as the specification lists them.\<close>

definition valid_dlc_sizes :: "nat list" where
  "valid_dlc_sizes = [0, 1, 2, 3, 4, 5, 6, 7, 8, 12, 16, 20, 24, 32, 48, 64]"

text \<open>\<^verbatim>\<open>FDCan::Override\<close> and \<^verbatim>\<open>FDCan::SendOptions\<close>.\<close>

datatype Override = kDefault | kRequire | kDisable

record SendOptions =
  bitrate_switch :: Override
  fdcan_frame :: Override
  remote_frame :: Override
  extended_id :: Override

definition default_SendOptions :: SendOptions where
  "default_SendOptions =
    \<lparr>bitrate_switch = kDefault, fdcan_frame = kDefault,
     remote_frame = kDefault, extended_id = kDefault\<rparr>"

text \<open>
  \<^verbatim>\<open>MicroDatagramServer::Header\<close>; only \<^verbatim>\<open>source\<close>, \<^verbatim>\<open>destination\<close> and \<^verbatim>\<open>flags\<close> are read
  by \<^verbatim>\<open>AsyncWrite\<close>.
\<close>

record Header =
  h_source :: u32
  h_destination :: u32
  h_size :: u32
  h_flags :: u32

text \<open>One call of \<^verbatim>\<open>FDCan::Send(dest_id, data, options)\<close>, as the driver receives it.\<close>

record can_frame =
  f_id :: u32
  f_data :: "u8 list"
  f_options :: SendOptions

text \<open>
  The members of \<^verbatim>\<open>FDCanMicroServer\<close> that \<^verbatim>\<open>AsyncWrite\<close> touches: the scratch buffer
  \<^verbatim>\<open>char buf_[64]\<close>, the prefix, and the frames handed to the driver so far.
\<close>

record FDCanMicroServer =
  buf :: "u8 list"
  can_prefix :: u32
  sent :: "can_frame list"

definition kBrsFlag :: u32 where "kBrsFlag = 0x01"
definition kFdcanFlag :: u32 where "kFdcanFlag = 0x02"

text \<open>\<^verbatim>\<open>std::memcpy(buf_, data.data(), data.size())\<close> into the start of the buffer.\<close>

definition memcpy_front :: "u8 list \<Rightarrow> u8 list \<Rightarrow> u8 list" where
  "memcpy_front bs src = src @ drop (length src) bs"

text \<open>\<^verbatim>\<open>for (size_t i = data.size(); i < actual_dlc; i++) { buf_[i] = 0x50; }\<close>\<close>

function pad_loop :: "nat \<Rightarrow> nat \<Rightarrow> u8 list \<Rightarrow> u8 list" where
  "pad_loop i n bs = (if i < n then pad_loop (Suc i) n (bs[i := 0x50]) else bs)"
  by pat_completeness auto
termination
  by (relation "measure (\<lambda>(i, n, bs). n - i)") auto

declare pad_loop.simps [simp del]

text \<open>
  \<^verbatim>\<open>FDCanMicroServer::AsyncWrite\<close>. The result is the updated server and the size passed
  to the completion callback. A payload longer than the 64-byte buffer makes \<^verbatim>\<open>memcpy\<close>
  write past \<^verbatim>\<open>buf_\<close>; that undefined behaviour is the value \<open>None\<close>.
\<close>

definition AsyncWrite ::
  "FDCanMicroServer \<Rightarrow> Header \<Rightarrow> u8 list \<Rightarrow> Header \<Rightarrow> (FDCanMicroServer \<times> nat) option" where
  "AsyncWrite srv header data query_header =
    (let actual_dlc = RoundUpDlc (length data);
         ident = (push_bit 8 (h_source header AND 0xff)) OR
                 (h_destination header AND 0xff) OR
                 (push_bit 16 (can_prefix srv));
         send_options = default_SendOptions
           \<lparr>bitrate_switch :=
              (if h_flags query_header AND kBrsFlag \<noteq> 0 then kRequire else kDisable),
            fdcan_frame :=
              (if h_flags query_header AND kFdcanFlag = 0 \<and> length data \<le> 8
               then kDisable else kRequire)\<rparr>
     in if actual_dlc = length data then
          Some (srv\<lparr>sent := sent srv @
                  [\<lparr>f_id = ident, f_data = data, f_options = send_options\<rparr>]\<rparr>,
                length data)
        else if length (buf srv) < length data then None
        else
          (let buf' = pad_loop (length data) actual_dlc (memcpy_front (buf srv) data)
           in Some (srv\<lparr>buf := buf',
                        sent := sent srv @
                          [\<lparr>f_id = ident, f_data = take actual_dlc buf',
                            f_options = send_options\<rparr>]\<rparr>,
                    length data)))"

section \<open>AS5047 on-board SPI encoder\<close>

text \<open>
  \<^verbatim>\<open>Stm32Spi\<close>, as far as a 16-bit exchange goes: \<^verbatim>\<open>start_write\<close> pulls chip select low,
  loads the data register and enables the peripheral; \<^verbatim>\<open>finish_write\<close> reads the data
  register, disables the peripheral and releases chip select. The busy-wait loops of the
  source only spend time (each is bounded by the \<^verbatim>\<open>timeout\<close> counter) and are not modelled.
  \<open>rx_dr\<close> is what the peripheral delivers in \<^verbatim>\<open>spi->DR\<close> for the exchange.
\<close>

record Stm32Spi =
  rx_dr :: u16
  tx_dr :: u16
  cs_pin :: bool
  spe :: bool

definition start_write :: "u16 \<Rightarrow> Stm32Spi \<Rightarrow> Stm32Spi" where
  "start_write v spi = spi\<lparr>cs_pin := False, tx_dr := v, spe := True\<rparr>"

definition finish_write :: "Stm32Spi \<Rightarrow> u16 \<times> Stm32Spi" where
  "finish_write spi = (rx_dr spi, spi\<lparr>spe := False, cs_pin := True\<rparr>)"

definition spi_write :: "u16 \<Rightarrow> Stm32Spi \<Rightarrow> u16 \<times> Stm32Spi" where
  "spi_write v spi = finish_write (start_write v spi)"

text \<open>\<^verbatim>\<open>AS5047::Sample\<close>: \<^verbatim>\<open>return (spi_.write(0xffff) & 0x3fff) << 2;\<close>\<close>

definition AS5047_Sample :: "Stm32Spi \<Rightarrow> u16 \<times> Stm32Spi" where
  "AS5047_Sample spi =
    (let (r, spi') = spi_write 0xffff spi in (push_bit 2 (r AND 0x3fff), spi'))"

text \<open>\<^verbatim>\<open>AS5047::StartSample\<close>: \<^verbatim>\<open>return spi_.start_write(0xffff);\<close>\<close>

definition AS5047_StartSample :: "Stm32Spi \<Rightarrow> Stm32Spi" where
  "AS5047_StartSample spi = start_write 0xffff spi"

text \<open>\<^verbatim>\<open>AS5047::FinishSample\<close>: \<^verbatim>\<open>return (spi_.finish_write() & 0x3fff);\<close>\<close>

definition AS5047_FinishSample :: "Stm32Spi \<Rightarrow> u16 \<times> Stm32Spi" where
  "AS5047_FinishSample spi =
    (let (r, spi') = finish_write spi in (r AND 0x3fff, spi'))"

section \<open>UART encoders: AkSIM-2 and CUI AMT21\<close>

text \<open>
  \<^verbatim>\<open>Stm32G4DmaUart\<close>, receive side. \<open>rx_cndtr\<close> is the DMA channel's count of bytes still to
  be received (\<^verbatim>\<open>rx_dma->CNDTR\<close>); the hardware counts it down as bytes arrive.
  \<open>rx_ccr_en\<close> and \<open>cr3_dmar\<close> are the two enable bits that \<^verbatim>\<open>start_dma_read\<close> sets and
  \<^verbatim>\<open>finish_dma_read\<close> clears. \<open>calls\<close> records the driver calls in order.
\<close>

datatype uart_call = WriteChar u8 | StartDmaRead nat | FinishDmaRead

record Stm32G4DmaUart =
  rx_cndtr :: u32
  rx_ccr_en :: bool
  cr3_dmar :: bool
  calls :: "uart_call list"

definition write_char :: "u8 \<Rightarrow> Stm32G4DmaUart \<Rightarrow> Stm32G4DmaUart" where
  "write_char c u = u\<lparr>calls := calls u @ [WriteChar c]\<rparr>"

definition start_dma_read :: "nat \<Rightarrow> Stm32G4DmaUart \<Rightarrow> Stm32G4DmaUart" where
  "start_dma_read n u =
    u\<lparr>rx_cndtr := of_nat n, rx_ccr_en := True, cr3_dmar := True,
      calls := calls u @ [StartDmaRead n]\<rparr>"

text \<open>\<^verbatim>\<open>int read_bytes_remaining() { return options_.rx_dma->CNDTR; }\<close>\<close>

definition read_bytes_remaining :: "Stm32G4DmaUart \<Rightarrow> int" where
  "read_bytes_remaining u = sint (rx_cndtr u)"

definition finish_dma_read :: "Stm32G4DmaUart \<Rightarrow> Stm32G4DmaUart" where
  "finish_dma_read u =
    u\<lparr>cr3_dmar := False, rx_ccr_en := False, calls := calls u @ [FinishDmaRead]\<rparr>"

text \<open>
  \<^verbatim>\<open>aux::UartEncoder::Config\<close> (the two fields the encoder classes read; \<^verbatim>\<open>poll_rate_us\<close>
  is an \<^verbatim>\<open>int32_t\<close>) and \<^verbatim>\<open>aux::UartEncoder::Status\<close>.
\<close>

record UartEncoder_Config =
  poll_rate_us :: u32
  cui_amt21_address :: u8

record UartEncoder_Status =
  active :: bool
  "value" :: u32
  nonce :: u8
  aksim2_err :: bool
  aksim2_warn :: bool
  aksim2_status :: u16
  checksum_errors :: u16

text \<open>
  The data members shared by \<^verbatim>\<open>class Aksim2\<close> and \<^verbatim>\<open>class CuiAmt21\<close>: \<^verbatim>\<open>config_\<close>, \<^verbatim>\<open>uart_\<close>,
  \<^verbatim>\<open>query_outstanding_\<close>, \<^verbatim>\<open>last_query_start_us_\<close> and \<^verbatim>\<open>buffer_\<close> (9 bytes in \<^verbatim>\<open>Aksim2\<close>,
  6 in \<^verbatim>\<open>CuiAmt21\<close>). The DMA engine fills \<open>buffer\<close> between calls. The timer is
  represented by the value \<^verbatim>\<open>timer_->read_us()\<close> returns, passed as \<open>now_us\<close>.
\<close>

record UartEncoder =
  config :: UartEncoder_Config
  uart :: Stm32G4DmaUart
  query_outstanding :: bool
  last_query_start_us :: u32
  buffer :: "u8 list"

definition kResyncBytes :: int where "kResyncBytes = 3"

text \<open>\<^verbatim>\<open>sizeof(buffer_)\<close> for \<^verbatim>\<open>uint8_t buffer_[6 + kResyncBytes]\<close> and \<^verbatim>\<open>uint8_t buffer_[3 + kResyncBytes]\<close>.\<close>

definition Aksim2_buffer_size :: nat where "Aksim2_buffer_size = nat (6 + kResyncBytes)"
definition CuiAmt21_buffer_size :: nat where "CuiAmt21_buffer_size = nat (3 + kResyncBytes)"

text \<open>
  \<^verbatim>\<open>Aksim2::ProcessQuery\<close>. The position is computed in \<^verbatim>\<open>int\<close> from three promoted bytes
  (so it is below \<open>2^24\<close> and the right shift is a logical one) and stored in a
  \<^verbatim>\<open>uint32_t\<close>; the two \<^verbatim>\<open>bool\<close> fields are set from a masked byte, true when it is nonzero.
\<close>

definition Aksim2_ProcessQuery ::
  "UartEncoder \<Rightarrow> UartEncoder_Status \<Rightarrow> UartEncoder \<times> UartEncoder_Status" where
  "Aksim2_ProcessQuery e status =
    (if read_bytes_remaining (uart e) > kResyncBytes then (e, status)
     else if read_bytes_remaining (uart e) = 0 then
       (e\<lparr>uart := finish_dma_read (uart e), query_outstanding := False\<rparr>, status)
     else if buffer e ! 0 \<noteq> 0x64 then (e, status)
     else
       (e\<lparr>uart := finish_dma_read (uart e), query_outstanding := False\<rparr>,
        status\<lparr>value :=
                 drop_bit 2 (push_bit 16 (ucast (buffer e ! 1)) OR
                             push_bit 8 (ucast (buffer e ! 2)) OR
                             push_bit 0 (ucast (buffer e ! 3))),
               aksim2_err := (buffer e ! 3 AND 0x01 \<noteq> 0),
               aksim2_warn := (buffer e ! 3 AND 0x02 \<noteq> 0),
               aksim2_status :=
                 push_bit 8 (ucast (buffer e ! 4)) OR push_bit 0 (ucast (buffer e ! 5)),
               nonce := nonce status + 1,
               active := True\<rparr>))"

text \<open>
  \<^verbatim>\<open>Aksim2::ISR_Update\<close>. \<^verbatim>\<open>delta_us\<close> is an unsigned 32-bit difference. The product
  \<^verbatim>\<open>2 * config_.poll_rate_us\<close> is computed in \<^verbatim>\<open>int32_t\<close> and cast to \<^verbatim>\<open>uint32_t\<close>; it is
  modelled as the wrapping 32-bit product.
\<close>

definition Aksim2_ISR_Update ::
  "u32 \<Rightarrow> UartEncoder \<Rightarrow> UartEncoder_Status \<Rightarrow> UartEncoder \<times> UartEncoder_Status" where
  "Aksim2_ISR_Update now_us e status =
    (let delta_us = now_us - last_query_start_us e;
         (e1, status1) =
           (if query_outstanding e then
              (if delta_us > 2 * poll_rate_us (config e) then
                 (e\<lparr>uart := finish_dma_read (uart e), query_outstanding := False\<rparr>, status)
               else Aksim2_ProcessQuery e status)
            else (e, status))
     in if query_outstanding e1 then (e1, status1)
        else if delta_us < poll_rate_us (config e1) then (e1, status1)
        else
          (e1\<lparr>last_query_start_us := now_us,
              query_outstanding := True,
              uart := start_dma_read Aksim2_buffer_size (write_char 0x64 (uart e1))\<rparr>,
           status1))"

text \<open>
  The two lambdas of \<^verbatim>\<open>CuiAmt21::ProcessQuery\<close>. \<^verbatim>\<open>even_parity\<close> folds bits 0, 2, ..., 12
  of its argument into the constant 1 with exclusive or; \<^verbatim>\<open>odd_parity\<close> applies it to the
  argument shifted right by one.
\<close>

definition even_parity :: "u16 \<Rightarrow> bool" where
  "even_parity v =
    ((1 XOR
      (v AND 0x01) XOR
      (drop_bit 2 v AND 0x01) XOR
      (drop_bit 4 v AND 0x01) XOR
      (drop_bit 6 v AND 0x01) XOR
      (drop_bit 8 v AND 0x01) XOR
      (drop_bit 10 v AND 0x01) XOR
      (drop_bit 12 v AND 0x01)) \<noteq> 0)"

definition odd_parity :: "u16 \<Rightarrow> bool" where
  "odd_parity v = even_parity (drop_bit 1 v)"

text \<open>\<^verbatim>\<open>const uint16_t value = buffer_[1] | (buffer_[2] << 8);\<close>\<close>

definition CuiAmt21_word :: "u8 list \<Rightarrow> u16" where
  "CuiAmt21_word b = ucast (b ! 1) OR push_bit 8 (ucast (b ! 2))"

text \<open>\<^verbatim>\<open>CuiAmt21::ProcessQuery\<close>.\<close>

definition CuiAmt21_ProcessQuery ::
  "UartEncoder \<Rightarrow> UartEncoder_Status \<Rightarrow> UartEncoder \<times> UartEncoder_Status" where
  "CuiAmt21_ProcessQuery e status =
    (if read_bytes_remaining (uart e) > kResyncBytes then (e, status)
     else if read_bytes_remaining (uart e) = 0 then
       (e\<lparr>uart := finish_dma_read (uart e), query_outstanding := False\<rparr>, status)
     else if buffer e ! 0 \<noteq> cui_amt21_address (config e) then (e, status)
     else
       (let e' = e\<lparr>uart := finish_dma_read (uart e), query_outstanding := False\<rparr>;
            v = CuiAmt21_word (buffer e);
            measured_even_parity = even_parity v;
            measured_odd_parity = odd_parity v;
            received_odd_parity = (v AND 0x8000 \<noteq> 0);
            received_even_parity = (v AND 0x4000 \<noteq> 0)
        in if received_odd_parity \<noteq> measured_odd_parity \<or>
              received_even_parity \<noteq> measured_even_parity
           then (e', status\<lparr>checksum_errors := checksum_errors status + 1\<rparr>)
           else (e', status\<lparr>value := ucast (v AND 0x3fff),
                            nonce := nonce status + 1,
                            active := True\<rparr>)))"

text \<open>\<^verbatim>\<open>CuiAmt21::ISR_Update\<close>; the query byte is the configured address.\<close>

definition CuiAmt21_ISR_Update ::
  "u32 \<Rightarrow> UartEncoder \<Rightarrow> UartEncoder_Status \<Rightarrow> UartEncoder \<times> UartEncoder_Status" where
  "CuiAmt21_ISR_Update now_us e status =
    (let delta_us = now_us - last_query_start_us e;
         (e1, status1) =
           (if query_outstanding e then
              (if delta_us > 2 * poll_rate_us (config e) then
                 (e\<lparr>uart := finish_dma_read (uart e), query_outstanding := False\<rparr>, status)
               else CuiAmt21_ProcessQuery e status)
            else (e, status))
     in if query_outstanding e1 then (e1, status1)
        else if delta_us < poll_rate_us (config e1) then (e1, status1)
        else
          (e1\<lparr>last_query_start_us := now_us,
              query_outstanding := True,
              uart := start_dma_read CuiAmt21_buffer_size
                        (write_char (cui_amt21_address (config e1)) (uart e1))\<rparr>,
           status1))"

section \<open>Index input\<close>

text \<open>\<^verbatim>\<open>aux::AuxError\<close> and \<^verbatim>\<open>aux::Index::Status\<close>.\<close>

datatype AuxError =
  kNone | kSpiPinError | kNotConfigured | kUnsupported | kI2cPinError | kHallPinError
  | kQuadPinError | kIndexPinError | kAdcPinError | kSineCosinePinError | kUartPinError
  | kLength

record Index_Status =
  index_active :: bool
  index_raw :: bool
  index_value :: bool

text \<open>
  \<^verbatim>\<open>class Stm32Index\<close>: the error latched by the constructor and the atomic flag
  \<^verbatim>\<open>observed_\<close>. The pin level that \<^verbatim>\<open>index_isr_->read()\<close> returns is an input, \<open>pin\<close>.
\<close>

record Stm32Index =
  error :: AuxError
  observed :: bool

text \<open>\<^verbatim>\<open>Stm32Index::ISR_Callback\<close>, run by the EXTI interrupt on either edge.\<close>

definition ISR_Callback :: "bool \<Rightarrow> Stm32Index \<Rightarrow> Stm32Index" where
  "ISR_Callback pin ix = (if pin then ix\<lparr>observed := True\<rparr> else ix)"

text \<open>\<^verbatim>\<open>Stm32Index::ISR_Update\<close>; \<^verbatim>\<open>observed_.exchange(false)\<close> returns the flag and clears it.\<close>

definition Stm32Index_ISR_Update ::
  "bool \<Rightarrow> Stm32Index \<Rightarrow> Index_Status \<Rightarrow> Stm32Index \<times> Index_Status" where
  "Stm32Index_ISR_Update pin ix status =
    (if error ix \<noteq> kNone then (ix, status)
     else
       (let old_raw = index_raw status;
            obs = observed ix;
            ix' = ix\<lparr>observed := False\<rparr>;
            raw' = (obs \<or> pin)
        in (ix', status\<lparr>index_raw := raw',
                        index_value := (raw' \<and> \<not> old_raw),
                        index_active := True\<rparr>)))"

text \<open>The EXTI interrupts between two control cycles, each with the pin level it reads.\<close>

definition run_callbacks :: "bool list \<Rightarrow> Stm32Index \<Rightarrow> Stm32Index" where
  "run_callbacks pins ix = fold ISR_Callback pins ix"

section \<open>TorqueModel\<close>

text \<open>
  \<^verbatim>\<open>class TorqueModel\<close> computes in \<^verbatim>\<open>float\<close>. Here its arithmetic is taken over the real
  numbers: rounding, infinities and NaN are not represented. \<^verbatim>\<open>log2f_approx\<close> comes from
  \<^verbatim>\<open>fw/math.h\<close>, which is not part of the sources at hand, so it is a parameter of the
  model.
\<close>

record TorqueModel =
  torque_constant :: real
  current_cutoff_A :: real
  current_scale :: real
  torque_scale :: real

text \<open>\<^verbatim>\<open>std::copysign(x, y)\<close>: the magnitude of \<open>x\<close> with the sign of \<open>y\<close>.\<close>

definition copysign :: "real \<Rightarrow> real \<Rightarrow> real" where
  "copysign x y = (if y < 0 then - \<bar>x\<bar> else \<bar>x\<bar>)"

definition current_to_torque :: "(real \<Rightarrow> real) \<Rightarrow> TorqueModel \<Rightarrow> real \<Rightarrow> real" where
  "current_to_torque log2f_approx tm current =
    (let rotation_extra =
           torque_scale tm *
           log2f_approx (1 + max 0 (\<bar>current\<bar> - current_cutoff_A tm) * current_scale tm)
     in if \<bar>current\<bar> < current_cutoff_A tm
        then current * torque_constant tm
        else copysign (current_cutoff_A tm * torque_constant tm + rotation_extra) current)"

section \<open>The two PID classes\<close>

text \<open>
  Both \<^verbatim>\<open>class PID\<close> definitions compute in \<^verbatim>\<open>float\<close>. To compare them without fixing how
  \<^verbatim>\<open>float\<close> rounds or treats NaN, the arithmetic is a parameter: a carrier \<open>'f\<close> and the
  operations the code applies to it. \<open>f_lt a b\<close> stands for \<^verbatim>\<open>a < b\<close> (and \<^verbatim>\<open>b > a\<close>),
  \<open>f_eq\<close> for \<^verbatim>\<open>==\<close>, \<open>f_of_int\<close> for the conversion of an integer operand (and for the
  literals \<^verbatim>\<open>0.0f\<close> and \<^verbatim>\<open>1.0f\<close>), \<open>f_isfinite\<close> for \<^verbatim>\<open>std::isfinite\<close>, and \<open>f_limit\<close> for
  \<^verbatim>\<open>mjlib::base::Limit\<close>, whose header is outside the sources at hand.
\<close>

record 'f float_ops =
  f_add :: "'f \<Rightarrow> 'f \<Rightarrow> 'f"
  f_sub :: "'f \<Rightarrow> 'f \<Rightarrow> 'f"
  f_mul :: "'f \<Rightarrow> 'f \<Rightarrow> 'f"
  f_div :: "'f \<Rightarrow> 'f \<Rightarrow> 'f"
  f_neg :: "'f \<Rightarrow> 'f"
  f_lt :: "'f \<Rightarrow> 'f \<Rightarrow> bool"
  f_eq :: "'f \<Rightarrow> 'f \<Rightarrow> bool"
  f_isfinite :: "'f \<Rightarrow> bool"
  f_of_int :: "int \<Rightarrow> 'f"
  f_limit :: "'f \<Rightarrow> 'f \<Rightarrow> 'f \<Rightarrow> 'f"

text \<open>\<^verbatim>\<open>PID::Config\<close> and \<^verbatim>\<open>PID::State\<close>, the same in both files; \<^verbatim>\<open>sign\<close> is an \<^verbatim>\<open>int8_t\<close>.\<close>

record 'f PID_Config =
  kp :: 'f
  ki :: 'f
  kd :: 'f
  iratelimit :: 'f
  ilimit :: 'f
  max_desired_rate :: 'f
  sign :: "8 word"

record 'f PID_State =
  pid_integral :: 'f
  pid_desired :: 'f
  pid_error :: 'f
  pid_error_rate :: 'f
  pid_p :: 'f
  pid_d :: 'f
  pid_pd :: 'f
  pid_command :: 'f

text \<open>
  \<^verbatim>\<open>PID::ApplyOptions\<close> of \<^verbatim>\<open>fw/simple_pid.h\<close> has \<^verbatim>\<open>kp_scale\<close> and \<^verbatim>\<open>kd_scale\<close>; that of the
  second class has \<^verbatim>\<open>ki_scale\<close> as well.
\<close>

record 'f ApplyOptions =
  kp_scale :: 'f
  kd_scale :: 'f

record 'f ApplyOptions_ki = "'f ApplyOptions" +
  ki_scale :: 'f

text \<open>
  \<^verbatim>\<open>PID::Apply\<close> of \<^verbatim>\<open>fw/simple_pid.h\<close>. The result is the returned command and the state
  left behind. \<open>rate_hz\<close> is an \<^verbatim>\<open>int\<close>, converted where it divides a \<^verbatim>\<open>float\<close>. The last
  assignment is
  \<^verbatim>\<open>state_->command = config_->sign * (state_->pd + state_->integral);\<close>
\<close>

definition simple_pid_Apply ::
  "'f float_ops \<Rightarrow> 'f PID_Config \<Rightarrow> 'f PID_State \<Rightarrow> 'f \<Rightarrow> 'f \<Rightarrow> 'f \<Rightarrow> 'f \<Rightarrow> int
    \<Rightarrow> 'f ApplyOptions \<Rightarrow> 'f \<times> 'f PID_State" where
  "simple_pid_Apply ops cfg st0 measured input_desired measured_rate input_desired_rate
      rate_hz apply_options =
    (let (desired, desired_rate) =
           (if \<not> f_eq ops (max_desired_rate cfg) (f_of_int ops 0) \<and>
               f_isfinite ops (pid_desired st0)
            then
              (let max_step = f_div ops (max_desired_rate cfg) (f_of_int ops rate_hz);
                   proposed_step = f_sub ops input_desired (pid_desired st0);
                   actual_step = f_limit ops proposed_step (f_neg ops max_step) max_step
               in (f_add ops (pid_desired st0) actual_step,
                   f_limit ops input_desired_rate
                     (f_neg ops (max_desired_rate cfg)) (max_desired_rate cfg)))
            else (input_desired, input_desired_rate));
         st1 = st0\<lparr>pid_desired := desired,
                    pid_error := f_sub ops measured desired,
                    pid_error_rate := f_sub ops measured_rate desired_rate\<rparr>;
         max_i_update = f_div ops (iratelimit cfg) (f_of_int ops rate_hz);
         to_update_i0 =
           f_div ops (f_mul ops (pid_error st1) (ki cfg)) (f_of_int ops rate_hz);
         to_update_i =
           (if f_lt ops (f_of_int ops 0) max_i_update then
              (if f_lt ops max_i_update to_update_i0 then max_i_update
               else if f_lt ops to_update_i0 (f_neg ops max_i_update)
                    then f_neg ops max_i_update
               else to_update_i0)
            else to_update_i0);
         st2 = st1\<lparr>pid_integral := f_add ops (pid_integral st1) to_update_i\<rparr>;
         st3 =
           (if f_lt ops (ilimit cfg) (pid_integral st2)
            then st2\<lparr>pid_integral := ilimit cfg\<rparr>
            else if f_lt ops (pid_integral st2) (f_neg ops (ilimit cfg))
                 then st2\<lparr>pid_integral := f_neg ops (ilimit cfg)\<rparr>
            else st2);
         st4 = st3\<lparr>pid_p :=
                 f_mul ops (f_mul ops (kp_scale apply_options) (kp cfg)) (pid_error st3)\<rparr>;
         st5 = st4\<lparr>pid_d :=
                 f_mul ops (f_mul ops (kd_scale apply_options) (kd cfg))
                   (pid_error_rate st4)\<rparr>;
         st6 = st5\<lparr>pid_pd := f_add ops (pid_p st5) (pid_d st5)\<rparr>;
         st7 = st6\<lparr>pid_command :=
                 f_mul ops (f_of_int ops (sint (sign cfg)))
                   (f_add ops (pid_pd st6) (pid_integral st6))\<rparr>
     in (pid_command st7, st7))"

text \<open>
  \<^verbatim>\<open>PID::Apply\<close> of the second class. The last assignment is
  \<^verbatim>\<open>state_->command = config_->sign * (state_->pd + apply_options.ki_scale * state_->integral);\<close>
\<close>

definition pid_Apply ::
  "'f float_ops \<Rightarrow> 'f PID_Config \<Rightarrow> 'f PID_State \<Rightarrow> 'f \<Rightarrow> 'f \<Rightarrow> 'f \<Rightarrow> 'f \<Rightarrow> int
    \<Rightarrow> 'f ApplyOptions_ki \<Rightarrow> 'f \<times> 'f PID_State" where
  "pid_Apply ops cfg st0 measured input_desired measured_rate input_desired_rate
      rate_hz apply_options =
    (let (desired, desired_rate) =
           (if \<not> f_eq ops (max_desired_rate cfg) (f_of_int ops 0) \<and>
               f_isfinite ops (pid_desired st0)
            then
              (let max_step = f_div ops (max_desired_rate cfg) (f_of_int ops rate_hz);
                   proposed_step = f_sub ops input_desired (pid_desired st0);
                   actual_step = f_limit ops proposed_step (f_neg ops max_step) max_step
               in (f_add ops (pid_desired st0) actual_step,
                   f_limit ops input_desired_rate
                     (f_neg ops (max_desired_rate cfg)) (max_desired_rate cfg)))
            else (input_desired, input_desired_rate));
         st1 = st0\<lparr>pid_desired := desired,
                    pid_error := f_sub ops measured desired,
                    pid_error_rate := f_sub ops measured_rate desired_rate\<rparr>;
         max_i_update = f_div ops (iratelimit cfg) (f_of_int ops rate_hz);
         to_update_i0 =
           f_div ops (f_mul ops (pid_error st1) (ki cfg)) (f_of_int ops rate_hz);
         to_update_i =
           (if f_lt ops (f_of_int ops 0) max_i_update then
              (if f_lt ops max_i_update to_update_i0 then max_i_update
               else if f_lt ops to_update_i0 (f_neg ops max_i_update)
                    then f_neg ops max_i_update
               else to_update_i0)
            else to_update_i0);
         st2 = st1\<lparr>pid_integral := f_add ops (pid_integral st1) to_update_i\<rparr>;
         st3 =
           (if f_lt ops (ilimit cfg) (pid_integral st2)
            then st2\<lparr>pid_integral := ilimit cfg\<rparr>
            else if f_lt ops (pid_integral st2) (f_neg ops (ilimit cfg))
                 then st2\<lparr>pid_integral := f_neg ops (ilimit cfg)\<rparr>
            else st2);
         st4 = st3\<lparr>pid_p :=
                 f_mul ops (f_mul ops (kp_scale apply_options) (kp cfg)) (pid_error st3)\<rparr>;
         st5 = st4\<lparr>pid_d :=
                 f_mul ops (f_mul ops (kd_scale apply_options) (kd cfg))
                   (pid_error_rate st4)\<rparr>;
         st6 = st5\<lparr>pid_pd := f_add ops (pid_p st5) (pid_d st5)\<rparr>;
         st7 = st6\<lparr>pid_command :=
                 f_mul ops (f_of_int ops (sint (sign cfg)))
                   (f_add ops (pid_pd st6)
                      (f_mul ops (ki_scale apply_options) (pid_integral st6)))\<rparr>
     in (pid_command st7, st7))"

text \<open>Exact real arithmetic as one instance of the operations.\<close>

definition real_ops :: "real float_ops" where
  "real_ops =
    \<lparr>f_add = (+), f_sub = (-), f_mul = (*), f_div = (/), f_neg = uminus,
     f_lt = (<), f_eq = (=), f_isfinite = (\<lambda>x. True), f_of_int = of_int,
     f_limit = (\<lambda>a lo hi. if a < lo then lo else if a > hi then hi else a)\<rparr>"

section \<open>Properties of the DLC rounding\<close>

lemma RoundUpDlc_valid:
  assumes "n \<le> 64"
  shows "RoundUpDlc n \<in> set valid_dlc_sizes"
  using assms by (simp add: RoundUpDlc_def valid_dlc_sizes_def)

lemma RoundUpDlc_ge:
  assumes "n \<le> 64"
  shows "n \<le> RoundUpDlc n"
  using assms by (simp add: RoundUpDlc_def)

lemma RoundUpDlc_least:
  assumes "d \<in> set valid_dlc_sizes" and "n \<le> d"
  shows "RoundUpDlc n \<le> d"
  using assms by (auto simp: RoundUpDlc_def valid_dlc_sizes_def)

lemma RoundUpDlc_le_64: "RoundUpDlc n \<le> 64"
  by (simp add: RoundUpDlc_def)

lemma pad_loop_length [simp]: "length (pad_loop i n bs) = length bs"
  by (induction i n bs rule: pad_loop.induct) (simp add: pad_loop.simps)

lemma pad_loop_below:
  "k < i \<Longrightarrow> pad_loop i n bs ! k = bs ! k"
proof (induction i n bs rule: pad_loop.induct)
  case (1 i n bs)
  show ?case
  proof (cases "i < n")
    case True
    with 1 show ?thesis by (simp add: pad_loop.simps [of i n bs])
  next
    case False
    then show ?thesis by (simp add: pad_loop.simps [of i n bs])
  qed
qed

lemma pad_loop_filled:
  "i \<le> k \<Longrightarrow> k < n \<Longrightarrow> n \<le> length bs \<Longrightarrow> pad_loop i n bs ! k = 0x50"
proof (induction i n bs rule: pad_loop.induct)
  case (1 i n bs)
  from 1 have "i < n" by simp
  show ?case
  proof (cases "k = i")
    case True
    with \<open>i < n\<close> 1 show ?thesis
      by (simp add: pad_loop.simps [of i n bs] pad_loop_below)
  next
    case False
    with 1 \<open>i < n\<close> show ?thesis by (simp add: pad_loop.simps [of i n bs])
  qed
qed

lemma pad_loop_take:
  "m \<le> i \<Longrightarrow> take m (pad_loop i n bs) = take m bs"
  by (rule nth_equalityI) (simp_all add: pad_loop_below)

text \<open>
  What \<^verbatim>\<open>AsyncWrite\<close> hands to the driver for a payload that fits the buffer: one frame,
  whose data has the rounded-up length, starts with the payload, and is \<open>0x50\<close> after it.
\<close>

lemma AsyncWrite_frame:
  assumes len: "length data \<le> 64" and blen: "length (buf srv) = 64"
  shows "\<exists>srv' fr. AsyncWrite srv header data query_header = Some (srv', length data)
           \<and> sent srv' = sent srv @ [fr]
           \<and> length (f_data fr) = RoundUpDlc (length data)
           \<and> take (length data) (f_data fr) = data
           \<and> (\<forall>i. length data \<le> i \<and> i < RoundUpDlc (length data) \<longrightarrow> f_data fr ! i = 0x50)"
proof (cases "RoundUpDlc (length data) = length data")
  case True
  then show ?thesis by (auto simp add: AsyncWrite_def Let_def)
next
  case False
  let ?n = "RoundUpDlc (length data)"
  let ?b = "pad_loop (length data) ?n (memcpy_front (buf srv) data)"
  have ge: "length data \<le> ?n" using len by (rule RoundUpDlc_ge)
  have le: "?n \<le> 64" by (rule RoundUpDlc_le_64)
  have lb: "length (memcpy_front (buf srv) data) = 64"
    using len blen by (simp add: memcpy_front_def)
  have l1: "length (take ?n ?b) = ?n" using le lb by simp
  have "take (length data) (take ?n ?b) = take (length data) ?b"
    using ge by (simp add: min_def)
  also have "\<dots> = take (length data) (memcpy_front (buf srv) data)"
    by (rule pad_loop_take) simp
  also have "\<dots> = data" by (simp add: memcpy_front_def)
  finally have l2: "take (length data) (take ?n ?b) = data" .
  have l3: "\<forall>i. length data \<le> i \<and> i < ?n \<longrightarrow> take ?n ?b ! i = 0x50"
    using le lb by (simp add: pad_loop_filled)
  from False len blen l1 l2 l3 show ?thesis
    by (simp add: AsyncWrite_def Let_def)
qed

text \<open>
  Claim C5. For every payload size \<open>n\<close> with \<open>0 \<le> n \<le> 64\<close>, \<open>RoundUpDlc n\<close> is the
  smallest of the lengths 0..8, 12, 16, 20, 24, 32, 48, 64 that is at least \<open>n\<close>; and
  \<open>AsyncWrite\<close> of a payload of at most 64 bytes sends one frame of that length which
  begins with the payload and holds the pad byte \<open>0x50\<close> in every added position.
\<close>

theorem RoundUpDlc_AsyncWrite_padding:
  assumes "length data \<le> 64" and "length (buf srv) = 64"
  shows "RoundUpDlc (length data) \<in> set valid_dlc_sizes
       \<and> length data \<le> RoundUpDlc (length data)
       \<and> (\<forall>d \<in> set valid_dlc_sizes. length data \<le> d \<longrightarrow> RoundUpDlc (length data) \<le> d)
       \<and> (\<exists>srv' fr. AsyncWrite srv header data query_header = Some (srv', length data)
            \<and> sent srv' = sent srv @ [fr]
            \<and> length (f_data fr) = RoundUpDlc (length data)
            \<and> take (length data) (f_data fr) = data
            \<and> (\<forall>i. length data \<le> i \<and> i < RoundUpDlc (length data)
                  \<longrightarrow> f_data fr ! i = 0x50))"
  using assms RoundUpDlc_valid RoundUpDlc_ge RoundUpDlc_least AsyncWrite_frame
  by blast

theorem RoundUpDlc_AsyncWrite_padding_witness:
  "length [1, 2, 3, 4, 5, 6, 7, 8, 9 :: u8] \<le> 64
   \<and> length (buf \<lparr>buf = replicate 64 0, can_prefix = 0, sent = []\<rparr>) = 64
   \<and> RoundUpDlc 9 = 12
   \<and> (\<exists>srv' fr.
         AsyncWrite \<lparr>buf = replicate 64 0, can_prefix = 0, sent = []\<rparr>
           \<lparr>h_source = 1, h_destination = 2, h_size = 0, h_flags = 0\<rparr>
           [1, 2, 3, 4, 5, 6, 7, 8, 9]
           \<lparr>h_source = 2, h_destination = 1, h_size = 0, h_flags = 0\<rparr> = Some (srv', 9)
         \<and> sent srv' = [fr]
         \<and> length (f_data fr) = 12
         \<and> take 9 (f_data fr) = [1, 2, 3, 4, 5, 6, 7, 8, 9]
         \<and> f_data fr ! 9 = 0x50 \<and> f_data fr ! 10 = 0x50 \<and> f_data fr ! 11 = 0x50)"
proof -
  have h1: "length [1, 2, 3, 4, 5, 6, 7, 8, 9 :: u8] \<le> 64" by simp
  have h2: "length (buf \<lparr>buf = replicate 64 0, can_prefix = 0, sent = []\<rparr>) = 64" by simp
  have r: "RoundUpDlc 9 = 12" by (simp add: RoundUpDlc_def)
  have l: "length [1, 2, 3, 4, 5, 6, 7, 8, 9 :: u8] = 9" by simp
  note t = RoundUpDlc_AsyncWrite_padding [OF h1 h2,
      of "\<lparr>h_source = 1, h_destination = 2, h_size = 0, h_flags = 0\<rparr>"
         "\<lparr>h_source = 2, h_destination = 1, h_size = 0, h_flags = 0\<rparr>", unfolded l r]
  then obtain srv' fr where
    a: "AsyncWrite \<lparr>buf = replicate 64 0, can_prefix = 0, sent = []\<rparr>
           \<lparr>h_source = 1, h_destination = 2, h_size = 0, h_flags = 0\<rparr>
           [1, 2, 3, 4, 5, 6, 7, 8, 9]
           \<lparr>h_source = 2, h_destination = 1, h_size = 0, h_flags = 0\<rparr> = Some (srv', 9)"
    and b: "sent srv' = sent \<lparr>buf = replicate 64 0, can_prefix = 0, sent = []\<rparr> @ [fr]"
    and c: "length (f_data fr) = 12"
    and d: "take 9 (f_data fr) = [1, 2, 3, 4, 5, 6, 7, 8, 9]"
    and e: "\<forall>i. 9 \<le> i \<and> i < 12 \<longrightarrow> f_data fr ! i = 0x50"
    by blast
  from b have b': "sent srv' = [fr]" by simp
  from e have e': "f_data fr ! 9 = 0x50" "f_data fr ! 10 = 0x50" "f_data fr ! 11 = 0x50"
    by simp_all
  from a b' c d e' have
    "\<exists>srv' fr.
         AsyncWrite \<lparr>buf = replicate 64 0, can_prefix = 0, sent = []\<rparr>
           \<lparr>h_source = 1, h_destination = 2, h_size = 0, h_flags = 0\<rparr>
           [1, 2, 3, 4, 5, 6, 7, 8, 9]
           \<lparr>h_source = 2, h_destination = 1, h_size = 0, h_flags = 0\<rparr> = Some (srv', 9)
         \<and> sent srv' = [fr]
         \<and> length (f_data fr) = 12
         \<and> take 9 (f_data fr) = [1, 2, 3, 4, 5, 6, 7, 8, 9]
         \<and> f_data fr ! 9 = 0x50 \<and> f_data fr ! 10 = 0x50 \<and> f_data fr ! 11 = 0x50"
    by blast
  with h1 h2 r show ?thesis by blast
qed

section \<open>The AS5047 sample paths\<close>

lemma AS5047_Sample_value:
  "fst (AS5047_Sample spi) = push_bit 2 (rx_dr spi AND 0x3fff)"
  by (simp add: AS5047_Sample_def spi_write_def finish_write_def start_write_def)

lemma AS5047_FinishSample_value:
  "fst (AS5047_FinishSample (AS5047_StartSample spi)) = rx_dr spi AND 0x3fff"
  by (simp add: AS5047_FinishSample_def AS5047_StartSample_def finish_write_def
      start_write_def)

text \<open>
  Claim C9. Both sample paths of the AS5047 should return the 14-bit reading shifted left
  by two. \<open>AS5047_Sample\<close> does; the \<open>AS5047_StartSample\<close>/\<open>AS5047_FinishSample\<close> pair
  masks the reading and returns it unshifted. At the reading \<open>0x0001\<close> the blocking
  path returns 4 and the split path returns 1.
\<close>

theorem AS5047_FinishSample_unshifted:
  "fst (AS5047_Sample \<lparr>rx_dr = 0x0001, tx_dr = 0, cs_pin = True, spe = False\<rparr>) = 4
   \<and> fst (AS5047_FinishSample
        (AS5047_StartSample \<lparr>rx_dr = 0x0001, tx_dr = 0, cs_pin = True, spe = False\<rparr>)) = 1
   \<and> fst (AS5047_FinishSample
        (AS5047_StartSample \<lparr>rx_dr = 0x0001, tx_dr = 0, cs_pin = True, spe = False\<rparr>))
      \<noteq> push_bit 2 (0x0001 AND 0x3fff)"
  by (simp add: AS5047_Sample_value AS5047_FinishSample_value)

section \<open>CUI AMT21 parity check\<close>

lemma and_one_bit: "(drop_bit k v AND 1) = of_bool (bit v k)" for v :: u16
  by (simp add: and_one_eq bit_iff_odd_drop_bit mod_2_eq_odd)

text \<open>
  \<open>even_parity\<close> is the complement of the exclusive or of the even-numbered data bits
  0..12, \<open>odd_parity\<close> that of the odd-numbered data bits 1..13; neither depends on
  bits 14 and 15.
\<close>

lemma even_parity_bits:
  "even_parity v \<longleftrightarrow>
     \<not> (bit v 0 \<noteq> (bit v 2 \<noteq> (bit v 4 \<noteq> (bit v 6 \<noteq> (bit v 8 \<noteq> (bit v 10 \<noteq> bit v 12))))))"
proof -
  have z: "(v AND 1) = of_bool (bit v 0)" using and_one_bit [of 0 v] by simp
  show ?thesis
    unfolding even_parity_def z and_one_bit
    by (cases "bit v 0"; cases "bit v 2"; cases "bit v 4"; cases "bit v 6";
        cases "bit v 8"; cases "bit v 10"; cases "bit v 12"; simp)
qed

lemma odd_parity_bits:
  "odd_parity v \<longleftrightarrow>
     \<not> (bit v 1 \<noteq> (bit v 3 \<noteq> (bit v 5 \<noteq> (bit v 7 \<noteq> (bit v 9 \<noteq> (bit v 11 \<noteq> bit v 13))))))"
proof -
  have s: "bit (drop_bit 1 v) k = bit v (Suc k)" for k
    by (simp add: bit_drop_bit_eq)
  have "bit (drop_bit 1 v) 0 = bit v 1" "bit (drop_bit 1 v) 2 = bit v 3"
    "bit (drop_bit 1 v) 4 = bit v 5" "bit (drop_bit 1 v) 6 = bit v 7"
    "bit (drop_bit 1 v) 8 = bit v 9" "bit (drop_bit 1 v) 10 = bit v 11"
    "bit (drop_bit 1 v) 12 = bit v 13"
    unfolding s by simp_all
  then show ?thesis by (simp only: odd_parity_def even_parity_bits)
qed

lemma test_bit_15: "(v AND 0x8000 \<noteq> 0) = bit v 15" for v :: u16
  using bit_iff_and_push_bit_not_eq_0 [of v 15] by simp

lemma test_bit_14: "(v AND 0x4000 \<noteq> 0) = bit v 14" for v :: u16
  using bit_iff_and_push_bit_not_eq_0 [of v 14] by simp

lemma mask_14: "v AND 0x3fff = take_bit 14 v" for v :: u16
  by (simp add: take_bit_eq_mask mask_eq_exp_minus_1)

lemma CuiAmt21_checked:
  assumes "read_bytes_remaining (uart e) \<le> kResyncBytes"
      and "read_bytes_remaining (uart e) \<noteq> 0"
      and "buffer e ! 0 = cui_amt21_address (config e)"
  shows "snd (CuiAmt21_ProcessQuery e status) =
     (if bit (CuiAmt21_word (buffer e)) 15 \<noteq> odd_parity (CuiAmt21_word (buffer e))
         \<or> bit (CuiAmt21_word (buffer e)) 14 \<noteq> even_parity (CuiAmt21_word (buffer e))
      then status\<lparr>checksum_errors := checksum_errors status + 1\<rparr>
      else status\<lparr>value := ucast (take_bit 14 (CuiAmt21_word (buffer e))),
                  nonce := nonce status + 1, active := True\<rparr>)"
  using assms
  by (simp add: CuiAmt21_ProcessQuery_def Let_def test_bit_15 test_bit_14 mask_14)

text \<open>
  Claim C3. In \<open>CuiAmt21_ProcessQuery\<close>, once a response is framed (between one and
  three bytes of the read remain and the first byte echoes the configured address), the
  16-bit word is checked against the parity of its 14 data bits: bit 15 must be the
  complement of the exclusive or of data bits 1, 3, ..., 13 and bit 14 the complement of
  the exclusive or of data bits 0, 2, ..., 12. If either parity bit disagrees,
  \<open>checksum_errors\<close> is incremented and \<open>value\<close>, \<open>nonce\<close> and \<open>active\<close> keep their
  values; if both agree, the low 14 bits are stored in \<open>value\<close>, \<open>nonce\<close> is
  incremented and \<open>active\<close> is set.
\<close>

theorem CuiAmt21_ProcessQuery_parity:
  assumes "read_bytes_remaining (uart e) \<le> kResyncBytes"
      and "read_bytes_remaining (uart e) \<noteq> 0"
      and "buffer e ! 0 = cui_amt21_address (config e)"
  shows "(bit (CuiAmt21_word (buffer e)) 15 \<noteq>
            (\<not> (bit (CuiAmt21_word (buffer e)) 1 \<noteq> (bit (CuiAmt21_word (buffer e)) 3 \<noteq> (bit (CuiAmt21_word (buffer e)) 5 \<noteq> (bit (CuiAmt21_word (buffer e)) 7 \<noteq> (bit (CuiAmt21_word (buffer e)) 9 \<noteq> (bit (CuiAmt21_word (buffer e)) 11 \<noteq> bit (CuiAmt21_word (buffer e)) 13)))))))
          \<or> bit (CuiAmt21_word (buffer e)) 14 \<noteq>
            (\<not> (bit (CuiAmt21_word (buffer e)) 0 \<noteq> (bit (CuiAmt21_word (buffer e)) 2 \<noteq> (bit (CuiAmt21_word (buffer e)) 4 \<noteq> (bit (CuiAmt21_word (buffer e)) 6 \<noteq> (bit (CuiAmt21_word (buffer e)) 8 \<noteq> (bit (CuiAmt21_word (buffer e)) 10 \<noteq> bit (CuiAmt21_word (buffer e)) 12)))))))
          \<longrightarrow> snd (CuiAmt21_ProcessQuery e status) =
                 status\<lparr>checksum_errors := checksum_errors status + 1\<rparr>
              \<and> value (snd (CuiAmt21_ProcessQuery e status)) = value status
              \<and> nonce (snd (CuiAmt21_ProcessQuery e status)) = nonce status
              \<and> active (snd (CuiAmt21_ProcessQuery e status)) = active status)
       \<and> (bit (CuiAmt21_word (buffer e)) 15 =
            (\<not> (bit (CuiAmt21_word (buffer e)) 1 \<noteq> (bit (CuiAmt21_word (buffer e)) 3 \<noteq> (bit (CuiAmt21_word (buffer e)) 5 \<noteq> (bit (CuiAmt21_word (buffer e)) 7 \<noteq> (bit (CuiAmt21_word (buffer e)) 9 \<noteq> (bit (CuiAmt21_word (buffer e)) 11 \<noteq> bit (CuiAmt21_word (buffer e)) 13)))))))
          \<and> bit (CuiAmt21_word (buffer e)) 14 =
            (\<not> (bit (CuiAmt21_word (buffer e)) 0 \<noteq> (bit (CuiAmt21_word (buffer e)) 2 \<noteq> (bit (CuiAmt21_word (buffer e)) 4 \<noteq> (bit (CuiAmt21_word (buffer e)) 6 \<noteq> (bit (CuiAmt21_word (buffer e)) 8 \<noteq> (bit (CuiAmt21_word (buffer e)) 10 \<noteq> bit (CuiAmt21_word (buffer e)) 12)))))))
          \<longrightarrow> snd (CuiAmt21_ProcessQuery e status) =
                 status\<lparr>value := ucast (take_bit 14 (CuiAmt21_word (buffer e))),
                        nonce := nonce status + 1,
                        active := True\<rparr>)"
proof -
  let ?odd = "(\<not> (bit (CuiAmt21_word (buffer e)) 1 \<noteq> (bit (CuiAmt21_word (buffer e)) 3 \<noteq> (bit (CuiAmt21_word (buffer e)) 5 \<noteq> (bit (CuiAmt21_word (buffer e)) 7 \<noteq> (bit (CuiAmt21_word (buffer e)) 9 \<noteq> (bit (CuiAmt21_word (buffer e)) 11 \<noteq> bit (CuiAmt21_word (buffer e)) 13)))))))"
  let ?even = "(\<not> (bit (CuiAmt21_word (buffer e)) 0 \<noteq> (bit (CuiAmt21_word (buffer e)) 2 \<noteq> (bit (CuiAmt21_word (buffer e)) 4 \<noteq> (bit (CuiAmt21_word (buffer e)) 6 \<noteq> (bit (CuiAmt21_word (buffer e)) 8 \<noteq> (bit (CuiAmt21_word (buffer e)) 10 \<noteq> bit (CuiAmt21_word (buffer e)) 12)))))))"
  let ?bad = "bit (CuiAmt21_word (buffer e)) 15 \<noteq> ?odd
      \<or> bit (CuiAmt21_word (buffer e)) 14 \<noteq> ?even"
  let ?rejected = "status\<lparr>checksum_errors := checksum_errors status + 1\<rparr>"
  let ?committed = "status\<lparr>value := ucast (take_bit 14 (CuiAmt21_word (buffer e))),
      nonce := nonce status + 1, active := True\<rparr>"
  have c: "snd (CuiAmt21_ProcessQuery e status) =
      (if ?bad then ?rejected else ?committed)"
    by (rule CuiAmt21_checked [OF assms, of status,
          unfolded odd_parity_bits even_parity_bits])
  have reject: "snd (CuiAmt21_ProcessQuery e status) = ?rejected" if "?bad"
    unfolding c using that by (rule if_P)
  have commit: "snd (CuiAmt21_ProcessQuery e status) = ?committed" if "\<not> ?bad"
    unfolding c using that by (rule if_not_P)
  show ?thesis
  proof (intro conjI impI)
    assume b: "?bad"
    show "snd (CuiAmt21_ProcessQuery e status) = ?rejected" by (rule reject [OF b])
    show "value (snd (CuiAmt21_ProcessQuery e status)) = value status"
      unfolding reject [OF b] by simp
    show "nonce (snd (CuiAmt21_ProcessQuery e status)) = nonce status"
      unfolding reject [OF b] by simp
    show "active (snd (CuiAmt21_ProcessQuery e status)) = active status"
      unfolding reject [OF b] by simp
  next
    assume "bit (CuiAmt21_word (buffer e)) 15 = ?odd
        \<and> bit (CuiAmt21_word (buffer e)) 14 = ?even"
    then have "\<not> ?bad" by (simp only: de_Morgan_disj not_not)
    then show "snd (CuiAmt21_ProcessQuery e status) = ?committed" by (rule commit)
  qed
qed

theorem CuiAmt21_ProcessQuery_parity_witness:
  "snd (CuiAmt21_ProcessQuery
     \<lparr>config = \<lparr>poll_rate_us = 100, cui_amt21_address = 0x54\<rparr>,
      uart = \<lparr>rx_cndtr = 3, rx_ccr_en = True, cr3_dmar = True, calls = []\<rparr>,
      query_outstanding = True, last_query_start_us = 0,
      buffer = [0x54, 0x34, 0x92, 0x00, 0x00, 0x00]\<rparr>
     \<lparr>active = False, value = 0, nonce = 7, aksim2_err = False, aksim2_warn = False,
      aksim2_status = 0, checksum_errors = 0\<rparr>)
   = \<lparr>active = True, value = 0x1234, nonce = 8, aksim2_err = False, aksim2_warn = False,
      aksim2_status = 0, checksum_errors = 0\<rparr>
  \<and> snd (CuiAmt21_ProcessQuery
     \<lparr>config = \<lparr>poll_rate_us = 100, cui_amt21_address = 0x54\<rparr>,
      uart = \<lparr>rx_cndtr = 3, rx_ccr_en = True, cr3_dmar = True, calls = []\<rparr>,
      query_outstanding = True, last_query_start_us = 0,
      buffer = [0x54, 0x05, 0x80, 0x00, 0x00, 0x00]\<rparr>
     \<lparr>active = False, value = 0, nonce = 7, aksim2_err = False, aksim2_warn = False,
      aksim2_status = 0, checksum_errors = 0\<rparr>)
   = \<lparr>active = False, value = 0, nonce = 7, aksim2_err = False, aksim2_warn = False,
      aksim2_status = 0, checksum_errors = 1\<rparr>"
proof -
  let ?e1 = "\<lparr>config = \<lparr>poll_rate_us = 100, cui_amt21_address = 0x54\<rparr>,
      uart = \<lparr>rx_cndtr = 3, rx_ccr_en = True, cr3_dmar = True, calls = []\<rparr>,
      query_outstanding = True, last_query_start_us = 0,
      buffer = [0x54, 0x34, 0x92, 0x00, 0x00, 0x00]\<rparr>"
  let ?e2 = "\<lparr>config = \<lparr>poll_rate_us = 100, cui_amt21_address = 0x54\<rparr>,
      uart = \<lparr>rx_cndtr = 3, rx_ccr_en = True, cr3_dmar = True, calls = []\<rparr>,
      query_outstanding = True, last_query_start_us = 0,
      buffer = [0x54, 0x05, 0x80, 0x00, 0x00, 0x00]\<rparr>"
  let ?s = "\<lparr>active = False, value = 0, nonce = 7, aksim2_err = False,
      aksim2_warn = False, aksim2_status = 0, checksum_errors = 0\<rparr>"
  have w1: "CuiAmt21_word (buffer ?e1) = 0x9234"
    by (simp add: CuiAmt21_word_def)
  have w2: "CuiAmt21_word (buffer ?e2) = 0x8005"
    by (simp add: CuiAmt21_word_def)
  have p1: "bit (0x9234 :: u16) 15 =
            (\<not> (bit (0x9234 :: u16) 1 \<noteq> (bit (0x9234 :: u16) 3 \<noteq> (bit (0x9234 :: u16) 5 \<noteq> (bit (0x9234 :: u16) 7 \<noteq> (bit (0x9234 :: u16) 9 \<noteq> (bit (0x9234 :: u16) 11 \<noteq> bit (0x9234 :: u16) 13)))))))
      \<and> bit (0x9234 :: u16) 14 =
            (\<not> (bit (0x9234 :: u16) 0 \<noteq> (bit (0x9234 :: u16) 2 \<noteq> (bit (0x9234 :: u16) 4 \<noteq> (bit (0x9234 :: u16) 6 \<noteq> (bit (0x9234 :: u16) 8 \<noteq> (bit (0x9234 :: u16) 10 \<noteq> bit (0x9234 :: u16) 12)))))))"
    by simp
  have p2: "bit (0x8005 :: u16) 14 \<noteq>
            (\<not> (bit (0x8005 :: u16) 0 \<noteq> (bit (0x8005 :: u16) 2 \<noteq> (bit (0x8005 :: u16) 4 \<noteq> (bit (0x8005 :: u16) 6 \<noteq> (bit (0x8005 :: u16) 8 \<noteq> (bit (0x8005 :: u16) 10 \<noteq> bit (0x8005 :: u16) 12)))))))"
    by simp
  have t14: "take_bit 14 (0x9234 :: u16) = 0x1234" by simp
  have f1: "read_bytes_remaining (uart ?e1) \<le> kResyncBytes"
    "read_bytes_remaining (uart ?e1) \<noteq> 0"
    "buffer ?e1 ! 0 = cui_amt21_address (config ?e1)"
    by (simp_all add: read_bytes_remaining_def kResyncBytes_def)
  have f2: "read_bytes_remaining (uart ?e2) \<le> kResyncBytes"
    "read_bytes_remaining (uart ?e2) \<noteq> 0"
    "buffer ?e2 ! 0 = cui_amt21_address (config ?e2)"
    by (simp_all add: read_bytes_remaining_def kResyncBytes_def)
  from CuiAmt21_ProcessQuery_parity [OF f1, of ?s, unfolded w1] p1
  have "snd (CuiAmt21_ProcessQuery ?e1 ?s) =
      ?s\<lparr>value := ucast (take_bit 14 (0x9234 :: u16)), nonce := nonce ?s + 1,
         active := True\<rparr>"
    by blast
  then have r1: "snd (CuiAmt21_ProcessQuery ?e1 ?s) =
      \<lparr>active = True, value = 0x1234, nonce = 8, aksim2_err = False, aksim2_warn = False,
       aksim2_status = 0, checksum_errors = 0\<rparr>"
    by (simp only: t14) simp
  from CuiAmt21_ProcessQuery_parity [OF f2, of ?s, unfolded w2] p2
  have "snd (CuiAmt21_ProcessQuery ?e2 ?s) =
      ?s\<lparr>checksum_errors := checksum_errors ?s + 1\<rparr>"
    by blast
  then have r2: "snd (CuiAmt21_ProcessQuery ?e2 ?s) =
      \<lparr>active = False, value = 0, nonce = 7, aksim2_err = False, aksim2_warn = False,
       aksim2_status = 0, checksum_errors = 1\<rparr>"
    by simp
  from r1 r2 show ?thesis by (rule conjI)
qed

section \<open>AkSIM-2 reply handling\<close>

lemma test_bit_0: "(v AND 0x01 \<noteq> 0) = bit v 0" for v :: u8
  using bit_iff_and_push_bit_not_eq_0 [of v 0] by simp

lemma test_bit_1: "(v AND 0x02 \<noteq> 0) = bit v 1" for v :: u8
  using bit_iff_and_push_bit_not_eq_0 [of v 1] by simp

lemma Aksim2_accept:
  assumes "read_bytes_remaining (uart e) \<le> kResyncBytes"
      and "read_bytes_remaining (uart e) \<noteq> 0"
      and "buffer e ! 0 = 0x64"
  shows "Aksim2_ProcessQuery e status =
       (e\<lparr>uart := finish_dma_read (uart e), query_outstanding := False\<rparr>,
        status\<lparr>value :=
                 drop_bit 2 (push_bit 16 (ucast (buffer e ! 1)) OR
                             push_bit 8 (ucast (buffer e ! 2)) OR
                             ucast (buffer e ! 3)),
               aksim2_err := bit (buffer e ! 3) 0,
               aksim2_warn := bit (buffer e ! 3) 1,
               aksim2_status :=
                 push_bit 8 (ucast (buffer e ! 4)) OR ucast (buffer e ! 5),
               nonce := nonce status + 1,
               active := True\<rparr>)"
  using assms by (simp add: Aksim2_ProcessQuery_def test_bit_0 test_bit_1)

lemma Aksim2_not_marker:
  assumes "buffer e ! 0 \<noteq> 0x64"
  shows "snd (Aksim2_ProcessQuery e status) = status"
  using assms by (simp add: Aksim2_ProcessQuery_def)

lemma Aksim2_exhausted:
  assumes "read_bytes_remaining (uart e) = 0"
  shows "Aksim2_ProcessQuery e status =
       (e\<lparr>uart := finish_dma_read (uart e), query_outstanding := False\<rparr>, status)"
  using assms by (simp add: Aksim2_ProcessQuery_def kResyncBytes_def)

lemma Aksim2_waiting:
  assumes "read_bytes_remaining (uart e) > kResyncBytes"
  shows "Aksim2_ProcessQuery e status = (e, status)"
  using assms by (simp add: Aksim2_ProcessQuery_def)

lemma Aksim2_retry:
  assumes "query_outstanding e"
      and "\<not> now_us - last_query_start_us e > 2 * poll_rate_us (config e)"
      and "\<not> now_us - last_query_start_us e < poll_rate_us (config e)"
      and "read_bytes_remaining (uart e) = 0"
  shows "Aksim2_ISR_Update now_us e status =
          (e\<lparr>last_query_start_us := now_us,
             query_outstanding := True,
             uart := start_dma_read Aksim2_buffer_size
                       (write_char 0x64 (finish_dma_read (uart e)))\<rparr>,
           status)"
  using assms by (simp add: Aksim2_ISR_Update_def Let_def Aksim2_exhausted)

lemma Aksim2_buffer_size_9: "Aksim2_buffer_size = 9"
  by (simp add: Aksim2_buffer_size_def kResyncBytes_def)

text \<open>
  The value stored on acceptance is not the 24-bit word of the three bytes after the
  marker: for the accepted reply \<open>64 00 00 04 00 00\<close> that word is 4 and the stored
  value is 1.
\<close>

theorem Aksim2_value_not_24_bit_word:
  "read_bytes_remaining (uart
     \<lparr>config = \<lparr>poll_rate_us = 100, cui_amt21_address = 0x54\<rparr>,
      uart = \<lparr>rx_cndtr = 3, rx_ccr_en = True, cr3_dmar = True, calls = []\<rparr>,
      query_outstanding = True, last_query_start_us = 0,
      buffer = [0x64, 0x00, 0x00, 0x04, 0x00, 0x00, 0x00, 0x00, 0x00]\<rparr>) = 3
   \<and> active (snd (Aksim2_ProcessQuery
     \<lparr>config = \<lparr>poll_rate_us = 100, cui_amt21_address = 0x54\<rparr>,
      uart = \<lparr>rx_cndtr = 3, rx_ccr_en = True, cr3_dmar = True, calls = []\<rparr>,
      query_outstanding = True, last_query_start_us = 0,
      buffer = [0x64, 0x00, 0x00, 0x04, 0x00, 0x00, 0x00, 0x00, 0x00]\<rparr>
     \<lparr>active = False, value = 0, nonce = 0, aksim2_err = False, aksim2_warn = False,
      aksim2_status = 0, checksum_errors = 0\<rparr>))
   \<and> value (snd (Aksim2_ProcessQuery
     \<lparr>config = \<lparr>poll_rate_us = 100, cui_amt21_address = 0x54\<rparr>,
      uart = \<lparr>rx_cndtr = 3, rx_ccr_en = True, cr3_dmar = True, calls = []\<rparr>,
      query_outstanding = True, last_query_start_us = 0,
      buffer = [0x64, 0x00, 0x00, 0x04, 0x00, 0x00, 0x00, 0x00, 0x00]\<rparr>
     \<lparr>active = False, value = 0, nonce = 0, aksim2_err = False, aksim2_warn = False,
      aksim2_status = 0, checksum_errors = 0\<rparr>)) = 1
   \<and> value (snd (Aksim2_ProcessQuery
     \<lparr>config = \<lparr>poll_rate_us = 100, cui_amt21_address = 0x54\<rparr>,
      uart = \<lparr>rx_cndtr = 3, rx_ccr_en = True, cr3_dmar = True, calls = []\<rparr>,
      query_outstanding = True, last_query_start_us = 0,
      buffer = [0x64, 0x00, 0x00, 0x04, 0x00, 0x00, 0x00, 0x00, 0x00]\<rparr>
     \<lparr>active = False, value = 0, nonce = 0, aksim2_err = False, aksim2_warn = False,
      aksim2_status = 0, checksum_errors = 0\<rparr>))
     \<noteq> (push_bit 16 (ucast (0x00 :: u8)) OR push_bit 8 (ucast (0x00 :: u8))
        OR ucast (0x04 :: u8) :: u32)
   \<and> (push_bit 16 (ucast (0x00 :: u8)) OR push_bit 8 (ucast (0x00 :: u8))
        OR ucast (0x04 :: u8) :: u32) = 4"
  by (simp add: Aksim2_ProcessQuery_def read_bytes_remaining_def kResyncBytes_def)

text \<open>
  Claim C4, amended. \<open>Aksim2_ProcessQuery\<close> changes the status only when the leading
  buffer byte is the marker \<open>0x64\<close> (the character d). On acceptance (between one
  and three bytes of the read remain and the marker is present) it stores the 24-bit
  word of the three bytes after the marker shifted right by two bits, sets
  \<open>aksim2_err\<close> and \<open>aksim2_warn\<close> from bits 0 and 1 of the third of those bytes,
  stores the following 16-bit status word, increments the nonce and sets \<open>active\<close>. A
  reply whose first byte is not the marker leaves the status as it was. Nothing is done
  while more than three bytes remain; the read is 6 + 3 bytes long, and once all of it
  has arrived the query is abandoned, and \<open>Aksim2_ISR_Update\<close> issues the next query
  when the poll period has elapsed.
\<close>

theorem Aksim2_ProcessQuery_commit:
  "(read_bytes_remaining (uart e) \<le> kResyncBytes \<and> read_bytes_remaining (uart e) \<noteq> 0
      \<and> buffer e ! 0 = 0x64
     \<longrightarrow> Aksim2_ProcessQuery e status =
       (e\<lparr>uart := finish_dma_read (uart e), query_outstanding := False\<rparr>,
        status\<lparr>value :=
                 drop_bit 2 (push_bit 16 (ucast (buffer e ! 1)) OR
                             push_bit 8 (ucast (buffer e ! 2)) OR
                             ucast (buffer e ! 3)),
               aksim2_err := bit (buffer e ! 3) 0,
               aksim2_warn := bit (buffer e ! 3) 1,
               aksim2_status :=
                 push_bit 8 (ucast (buffer e ! 4)) OR ucast (buffer e ! 5),
               nonce := nonce status + 1,
               active := True\<rparr>))
   \<and> (buffer e ! 0 \<noteq> 0x64 \<longrightarrow> snd (Aksim2_ProcessQuery e status) = status)
   \<and> (read_bytes_remaining (uart e) > kResyncBytes
        \<longrightarrow> Aksim2_ProcessQuery e status = (e, status))
   \<and> Aksim2_buffer_size = 6 + 3
   \<and> (read_bytes_remaining (uart e) = 0
        \<longrightarrow> Aksim2_ProcessQuery e status =
            (e\<lparr>uart := finish_dma_read (uart e), query_outstanding := False\<rparr>, status))
   \<and> (query_outstanding e
        \<and> \<not> now_us - last_query_start_us e > 2 * poll_rate_us (config e)
        \<and> \<not> now_us - last_query_start_us e < poll_rate_us (config e)
        \<and> read_bytes_remaining (uart e) = 0
        \<longrightarrow> Aksim2_ISR_Update now_us e status =
            (e\<lparr>last_query_start_us := now_us,
               query_outstanding := True,
               uart := start_dma_read Aksim2_buffer_size
                         (write_char 0x64 (finish_dma_read (uart e)))\<rparr>,
             status))"
proof (intro conjI impI)
  show "Aksim2_buffer_size = 6 + 3" by (simp add: Aksim2_buffer_size_9)
qed (simp_all add: Aksim2_accept Aksim2_not_marker Aksim2_waiting Aksim2_exhausted
      Aksim2_retry)

theorem Aksim2_ProcessQuery_commit_witness:
  "Aksim2_ProcessQuery
     \<lparr>config = \<lparr>poll_rate_us = 100, cui_amt21_address = 0x54\<rparr>,
      uart = \<lparr>rx_cndtr = 3, rx_ccr_en = True, cr3_dmar = True, calls = []\<rparr>,
      query_outstanding = True, last_query_start_us = 0,
      buffer = [0x64, 0x12, 0x34, 0x56, 0xab, 0xcd, 0x00, 0x00, 0x00]\<rparr>
     \<lparr>active = False, value = 0, nonce = 255, aksim2_err = False, aksim2_warn = False,
      aksim2_status = 0, checksum_errors = 0\<rparr>
   = (\<lparr>config = \<lparr>poll_rate_us = 100, cui_amt21_address = 0x54\<rparr>,
       uart = \<lparr>rx_cndtr = 3, rx_ccr_en = False, cr3_dmar = False, calls = [FinishDmaRead]\<rparr>,
       query_outstanding = False, last_query_start_us = 0,
       buffer = [0x64, 0x12, 0x34, 0x56, 0xab, 0xcd, 0x00, 0x00, 0x00]\<rparr>,
      \<lparr>active = True, value = 0x48d15, nonce = 0, aksim2_err = False, aksim2_warn = True,
       aksim2_status = 0xabcd, checksum_errors = 0\<rparr>)"
proof -
  let ?e = "\<lparr>config = \<lparr>poll_rate_us = 100, cui_amt21_address = 0x54\<rparr>,
      uart = \<lparr>rx_cndtr = 3, rx_ccr_en = True, cr3_dmar = True, calls = []\<rparr>,
      query_outstanding = True, last_query_start_us = 0,
      buffer = [0x64, 0x12, 0x34, 0x56, 0xab, 0xcd, 0x00, 0x00, 0x00]\<rparr>"
  let ?s = "\<lparr>active = False, value = 0, nonce = 255, aksim2_err = False,
      aksim2_warn = False, aksim2_status = 0, checksum_errors = 0\<rparr>"
  have f: "read_bytes_remaining (uart ?e) \<le> kResyncBytes \<and> read_bytes_remaining (uart ?e) \<noteq> 0
      \<and> buffer ?e ! 0 = 0x64"
    by (simp add: read_bytes_remaining_def kResyncBytes_def)
  from Aksim2_ProcessQuery_commit [of ?e ?s 0] f
  have "Aksim2_ProcessQuery ?e ?s =
       (?e\<lparr>uart := finish_dma_read (uart ?e), query_outstanding := False\<rparr>,
        ?s\<lparr>value :=
                 drop_bit 2 (push_bit 16 (ucast (buffer ?e ! 1)) OR
                             push_bit 8 (ucast (buffer ?e ! 2)) OR
                             ucast (buffer ?e ! 3)),
               aksim2_err := bit (buffer ?e ! 3) 0,
               aksim2_warn := bit (buffer ?e ! 3) 1,
               aksim2_status :=
                 push_bit 8 (ucast (buffer ?e ! 4)) OR ucast (buffer ?e ! 5),
               nonce := nonce ?s + 1,
               active := True\<rparr>)"
    by blast
  then show ?thesis by (simp add: finish_dma_read_def)
qed

section \<open>Timeout of an outstanding UART query\<close>

lemma timeout_word:
  fixes p d :: u32
  assumes "2 * unat p < unat d"
  shows "2 * p < d" and "\<not> d < p"
proof -
  have b: "unat d < 2 ^ 32" using unsigned_less [of d] by simp
  have "unat (2 * p) = 2 * unat p"
    using assms b by (simp add: unat_word_ariths)
  with assms show "2 * p < d" by (simp add: word_less_nat_alt)
  from assms show "\<not> d < p" by (simp add: word_less_nat_alt)
qed

lemma Aksim2_timeout:
  assumes "query_outstanding e"
      and "2 * unat (poll_rate_us (config e)) < unat (now_us - last_query_start_us e)"
  shows "Aksim2_ISR_Update now_us e status =
          (e\<lparr>last_query_start_us := now_us,
             query_outstanding := True,
             uart := start_dma_read Aksim2_buffer_size
                       (write_char 0x64 (finish_dma_read (uart e)))\<rparr>,
           status)"
  using assms timeout_word [OF assms(2)]
  by (simp add: Aksim2_ISR_Update_def Let_def)

lemma CuiAmt21_timeout:
  assumes "query_outstanding e"
      and "2 * unat (poll_rate_us (config e)) < unat (now_us - last_query_start_us e)"
  shows "CuiAmt21_ISR_Update now_us e status =
          (e\<lparr>last_query_start_us := now_us,
             query_outstanding := True,
             uart := start_dma_read CuiAmt21_buffer_size
                       (write_char (cui_amt21_address (config e))
                          (finish_dma_read (uart e)))\<rparr>,
           status)"
  using assms timeout_word [OF assms(2)]
  by (simp add: CuiAmt21_ISR_Update_def Let_def)

lemma calls_restart:
  "calls (start_dma_read n (write_char c (finish_dma_read u))) =
     calls u @ [FinishDmaRead, WriteChar c, StartDmaRead n]"
  by (simp add: start_dma_read_def write_char_def finish_dma_read_def)

text \<open>
  On a timeout the \<open>active\<close> flag is not cleared: with a poll rate of 100 us, a query
  outstanding since time 0 and the clock at 1000 us, an active status stays active
  through the update of either encoder class.
\<close>

theorem UartEncoder_timeout_keeps_active:
  "query_outstanding
     \<lparr>config = \<lparr>poll_rate_us = 100, cui_amt21_address = 0x54\<rparr>,
      uart = \<lparr>rx_cndtr = 9, rx_ccr_en = True, cr3_dmar = True, calls = []\<rparr>,
      query_outstanding = True, last_query_start_us = 0, buffer = replicate 9 0\<rparr>
   \<and> 2 * unat (100 :: u32) < unat (1000 - 0 :: u32)
   \<and> active (snd (Aksim2_ISR_Update 1000
     \<lparr>config = \<lparr>poll_rate_us = 100, cui_amt21_address = 0x54\<rparr>,
      uart = \<lparr>rx_cndtr = 9, rx_ccr_en = True, cr3_dmar = True, calls = []\<rparr>,
      query_outstanding = True, last_query_start_us = 0, buffer = replicate 9 0\<rparr>
     \<lparr>active = True, value = 5, nonce = 1, aksim2_err = False, aksim2_warn = False,
      aksim2_status = 0, checksum_errors = 0\<rparr>))
   \<and> active (snd (CuiAmt21_ISR_Update 1000
     \<lparr>config = \<lparr>poll_rate_us = 100, cui_amt21_address = 0x54\<rparr>,
      uart = \<lparr>rx_cndtr = 6, rx_ccr_en = True, cr3_dmar = True, calls = []\<rparr>,
      query_outstanding = True, last_query_start_us = 0, buffer = replicate 6 0\<rparr>
     \<lparr>active = True, value = 5, nonce = 1, aksim2_err = False, aksim2_warn = False,
      aksim2_status = 0, checksum_errors = 0\<rparr>))"
  by (simp add: Aksim2_ISR_Update_def CuiAmt21_ISR_Update_def Let_def)

text \<open>
  Claim C8, amended. In \<open>Aksim2_ISR_Update\<close> and \<open>CuiAmt21_ISR_Update\<close>, a query that is
  still outstanding more than twice \<open>poll_rate_us\<close> microseconds after it was started is
  aborted: the DMA read is finished and, in the same update, the next query is written
  and a new read started. The status is returned unchanged, so \<open>active\<close> keeps the value
  it had.
\<close>

theorem UartEncoder_timeout_aborts:
  assumes "query_outstanding e"
      and "2 * unat (poll_rate_us (config e)) < unat (now_us - last_query_start_us e)"
  shows "snd (Aksim2_ISR_Update now_us e status) = status
       \<and> active (snd (Aksim2_ISR_Update now_us e status)) = active status
       \<and> calls (uart (fst (Aksim2_ISR_Update now_us e status))) =
           calls (uart e) @ [FinishDmaRead, WriteChar 0x64, StartDmaRead Aksim2_buffer_size]
       \<and> last_query_start_us (fst (Aksim2_ISR_Update now_us e status)) = now_us
       \<and> snd (CuiAmt21_ISR_Update now_us e status) = status
       \<and> active (snd (CuiAmt21_ISR_Update now_us e status)) = active status
       \<and> calls (uart (fst (CuiAmt21_ISR_Update now_us e status))) =
           calls (uart e) @ [FinishDmaRead, WriteChar (cui_amt21_address (config e)),
                             StartDmaRead CuiAmt21_buffer_size]
       \<and> last_query_start_us (fst (CuiAmt21_ISR_Update now_us e status)) = now_us"
  by (simp add: Aksim2_timeout [OF assms] CuiAmt21_timeout [OF assms] calls_restart)

theorem UartEncoder_timeout_aborts_witness:
  "calls (uart (fst (Aksim2_ISR_Update 1000
     \<lparr>config = \<lparr>poll_rate_us = 100, cui_amt21_address = 0x54\<rparr>,
      uart = \<lparr>rx_cndtr = 9, rx_ccr_en = True, cr3_dmar = True, calls = []\<rparr>,
      query_outstanding = True, last_query_start_us = 0, buffer = replicate 9 0\<rparr>
     \<lparr>active = True, value = 5, nonce = 1, aksim2_err = False, aksim2_warn = False,
      aksim2_status = 0, checksum_errors = 0\<rparr>)))
    = [FinishDmaRead, WriteChar 0x64, StartDmaRead 9]
   \<and> snd (CuiAmt21_ISR_Update 1000
     \<lparr>config = \<lparr>poll_rate_us = 100, cui_amt21_address = 0x54\<rparr>,
      uart = \<lparr>rx_cndtr = 9, rx_ccr_en = True, cr3_dmar = True, calls = []\<rparr>,
      query_outstanding = True, last_query_start_us = 0, buffer = replicate 9 0\<rparr>
     \<lparr>active = True, value = 5, nonce = 1, aksim2_err = False, aksim2_warn = False,
      aksim2_status = 0, checksum_errors = 0\<rparr>)
    = \<lparr>active = True, value = 5, nonce = 1, aksim2_err = False, aksim2_warn = False,
       aksim2_status = 0, checksum_errors = 0\<rparr>"
proof -
  let ?e = "\<lparr>config = \<lparr>poll_rate_us = 100, cui_amt21_address = 0x54\<rparr>,
      uart = \<lparr>rx_cndtr = 9, rx_ccr_en = True, cr3_dmar = True, calls = []\<rparr>,
      query_outstanding = True, last_query_start_us = 0, buffer = replicate 9 0\<rparr>"
  let ?s = "\<lparr>active = True, value = 5, nonce = 1, aksim2_err = False,
      aksim2_warn = False, aksim2_status = 0, checksum_errors = 0\<rparr>"
  have h1: "query_outstanding ?e" by simp
  have h2: "2 * unat (poll_rate_us (config ?e)) < unat (1000 - last_query_start_us ?e)"
    by simp
  have n: "Aksim2_buffer_size = 9" by (simp add: Aksim2_buffer_size_def kResyncBytes_def)
  from UartEncoder_timeout_aborts [OF h1 h2, of ?s]
  have "calls (uart (fst (Aksim2_ISR_Update 1000 ?e ?s))) =
          calls (uart ?e) @ [FinishDmaRead, WriteChar 0x64, StartDmaRead Aksim2_buffer_size]"
    and "snd (CuiAmt21_ISR_Update 1000 ?e ?s) = ?s"
    by blast+
  then show ?thesis by (simp add: n)
qed

section \<open>Index latch\<close>

lemma run_callbacks_error: "error (run_callbacks pins ix) = error ix"
  unfolding run_callbacks_def
  by (induction pins arbitrary: ix) (simp_all add: ISR_Callback_def)

lemma run_callbacks_observed:
  "observed (run_callbacks pins ix) = (observed ix \<or> True \<in> set pins)"
  unfolding run_callbacks_def
  by (induction pins arbitrary: ix) (auto simp: ISR_Callback_def)

lemma Stm32Index_update_ok:
  assumes "error ix = kNone"
  shows "Stm32Index_ISR_Update pin ix status =
          (ix\<lparr>observed := False\<rparr>,
           status\<lparr>index_raw := (observed ix \<or> pin),
                  index_value := ((observed ix \<or> pin) \<and> \<not> index_raw status),
                  index_active := True\<rparr>)"
  using assms by (simp add: Stm32Index_ISR_Update_def Let_def)

text \<open>
  With an error latched by the constructor, \<open>Stm32Index_ISR_Update\<close> returns at once:
  the raw output stays low although both the latch and the pin are high.
\<close>

theorem Stm32Index_update_skipped_on_error:
  "index_raw (snd (Stm32Index_ISR_Update True
      \<lparr>error = kIndexPinError, observed = True\<rparr>
      \<lparr>index_active = False, index_raw = False, index_value = False\<rparr>))
    \<noteq> (observed \<lparr>error = kIndexPinError, observed = True\<rparr> \<or> True)"
  by (simp add: Stm32Index_ISR_Update_def)

lemma Stm32Index_update_error:
  assumes "error ix \<noteq> kNone"
  shows "Stm32Index_ISR_Update pin ix status = (ix, status)"
  using assms by (simp add: Stm32Index_ISR_Update_def)

text \<open>
  Claim C7, amended. On every control cycle in which no configuration error is latched
  (\<open>error = kNone\<close>), \<open>Stm32Index_ISR_Update\<close> sets the raw output to the latched
  observation or the live pin level, clears the latch, and sets \<open>value\<close> exactly when raw
  goes from false to true. Hence, when an EXTI interrupt between one update and the next
  reads the pin high, the next update reports raw true even though the pin reads low
  then, and \<open>value\<close> is true exactly when the earlier update left raw false. With an
  error latched, \<open>Stm32Index_ISR_Update\<close> returns without touching the status or the
  latch.
\<close>

theorem Stm32Index_latch_or_live:
  "(error ix = kNone \<longrightarrow>
      Stm32Index_ISR_Update pin ix status =
          (ix\<lparr>observed := False\<rparr>,
           status\<lparr>index_raw := (observed ix \<or> pin),
                  index_value := ((observed ix \<or> pin) \<and> \<not> index_raw status),
                  index_active := True\<rparr>)
       \<and> (True \<in> set pins \<longrightarrow>
            index_raw (snd (Stm32Index_ISR_Update False
              (run_callbacks pins (fst (Stm32Index_ISR_Update pin ix status)))
              (snd (Stm32Index_ISR_Update pin ix status))))
          \<and> index_value (snd (Stm32Index_ISR_Update False
              (run_callbacks pins (fst (Stm32Index_ISR_Update pin ix status)))
              (snd (Stm32Index_ISR_Update pin ix status))))
            = (\<not> (observed ix \<or> pin))))
   \<and> (error ix \<noteq> kNone \<longrightarrow> Stm32Index_ISR_Update pin ix status = (ix, status))"
proof (intro conjI impI)
  assume ok: "error ix = kNone"
  show "Stm32Index_ISR_Update pin ix status =
          (ix\<lparr>observed := False\<rparr>,
           status\<lparr>index_raw := (observed ix \<or> pin),
                  index_value := ((observed ix \<or> pin) \<and> \<not> index_raw status),
                  index_active := True\<rparr>)"
    by (rule Stm32Index_update_ok [OF ok])
next
  assume ok: "error ix = kNone" and pulse: "True \<in> set pins"
  have e1: "error (run_callbacks pins (ix\<lparr>observed := False\<rparr>)) = kNone"
    using ok by (simp add: run_callbacks_error)
  from pulse show "index_raw (snd (Stm32Index_ISR_Update False
              (run_callbacks pins (fst (Stm32Index_ISR_Update pin ix status)))
              (snd (Stm32Index_ISR_Update pin ix status))))"
    by (simp add: Stm32Index_update_ok [OF ok] Stm32Index_update_ok [OF e1]
        run_callbacks_observed)
next
  assume ok: "error ix = kNone" and pulse: "True \<in> set pins"
  have e1: "error (run_callbacks pins (ix\<lparr>observed := False\<rparr>)) = kNone"
    using ok by (simp add: run_callbacks_error)
  from pulse show "index_value (snd (Stm32Index_ISR_Update False
              (run_callbacks pins (fst (Stm32Index_ISR_Update pin ix status)))
              (snd (Stm32Index_ISR_Update pin ix status))))
            = (\<not> (observed ix \<or> pin))"
    by (simp add: Stm32Index_update_ok [OF ok] Stm32Index_update_ok [OF e1]
        run_callbacks_observed)
next
  assume "error ix \<noteq> kNone"
  then show "Stm32Index_ISR_Update pin ix status = (ix, status)"
    by (rule Stm32Index_update_error)
qed

theorem Stm32Index_latch_or_live_witness:
  "snd (Stm32Index_ISR_Update False
     (run_callbacks [True, False]
       (fst (Stm32Index_ISR_Update False \<lparr>error = kNone, observed = False\<rparr>
          \<lparr>index_active = False, index_raw = False, index_value = False\<rparr>)))
     (snd (Stm32Index_ISR_Update False \<lparr>error = kNone, observed = False\<rparr>
          \<lparr>index_active = False, index_raw = False, index_value = False\<rparr>)))
   = \<lparr>index_active = True, index_raw = True, index_value = True\<rparr>
   \<and> Stm32Index_ISR_Update True \<lparr>error = kIndexPinError, observed = True\<rparr>
        \<lparr>index_active = False, index_raw = False, index_value = False\<rparr>
     = (\<lparr>error = kIndexPinError, observed = True\<rparr>,
        \<lparr>index_active = False, index_raw = False, index_value = False\<rparr>)"
proof -
  let ?ix = "\<lparr>error = kNone, observed = False\<rparr>"
  let ?bad = "\<lparr>error = kIndexPinError, observed = True\<rparr>"
  let ?s = "\<lparr>index_active = False, index_raw = False, index_value = False\<rparr>"
  let ?r = "snd (Stm32Index_ISR_Update False
     (run_callbacks [True, False] (fst (Stm32Index_ISR_Update False ?ix ?s)))
     (snd (Stm32Index_ISR_Update False ?ix ?s)))"
  have h: "error ?ix = kNone" by simp
  have m: "True \<in> set [True, False]" by simp
  have g: "error ?bad \<noteq> kNone" by simp
  from Stm32Index_latch_or_live
         [where ix = ?ix and pin = False and status = ?s and pins = "[True, False]"] h m
  have "index_raw ?r" and "index_value ?r = (\<not> (observed ?ix \<or> False))"
    by blast+
  moreover have "index_active ?r"
    by (simp add: Stm32Index_ISR_Update_def run_callbacks_def ISR_Callback_def)
  ultimately have r1: "?r = \<lparr>index_active = True, index_raw = True, index_value = True\<rparr>"
    by (cases ?r) simp
  from Stm32Index_latch_or_live
         [where ix = ?bad and pin = True and status = ?s and pins = "[]"] g
  have r2: "Stm32Index_ISR_Update True ?bad ?s = (?bad, ?s)" by blast
  from r1 r2 show ?thesis by (rule conjI)
qed

section \<open>The torque model\<close>

lemma current_to_torque_linear:
  assumes "\<bar>i\<bar> < current_cutoff_A tm"
  shows "current_to_torque lg tm i = i * torque_constant tm"
  using assms by (simp add: current_to_torque_def Let_def)

lemma current_to_torque_log:
  assumes "\<not> \<bar>i\<bar> < current_cutoff_A tm"
  shows "current_to_torque lg tm i =
           copysign (current_cutoff_A tm * torque_constant tm +
                     torque_scale tm * lg (1 + (\<bar>i\<bar> - current_cutoff_A tm) * current_scale tm)) i"
proof -
  from assms have "max 0 (\<bar>i\<bar> - current_cutoff_A tm) = \<bar>i\<bar> - current_cutoff_A tm"
    by simp
  with assms show ?thesis by (simp add: current_to_torque_def Let_def)
qed

text \<open>
  Claim C1. For every current \<open>i\<close>, \<open>current_to_torque\<close> returns \<open>i\<close> times the torque
  constant when \<open>\<bar>i\<bar>\<close> is below the cutoff; otherwise it returns the cutoff times the
  torque constant plus the torque scale times the (approximated) base-2 logarithm of
  \<open>1 + (\<bar>i\<bar> - cutoff) * current_scale\<close>, in magnitude, carrying the sign of \<open>i\<close>.
\<close>

theorem current_to_torque_regimes:
  "(\<bar>i\<bar> < current_cutoff_A tm \<longrightarrow>
      current_to_torque lg tm i = i * torque_constant tm)
   \<and> (\<not> \<bar>i\<bar> < current_cutoff_A tm \<longrightarrow>
      current_to_torque lg tm i =
        (if i < 0 then -1 else 1) *
        \<bar>current_cutoff_A tm * torque_constant tm +
         torque_scale tm * lg (1 + (\<bar>i\<bar> - current_cutoff_A tm) * current_scale tm)\<bar>
      \<and> (i < 0 \<longrightarrow> current_to_torque lg tm i \<le> 0)
      \<and> (0 \<le> i \<longrightarrow> 0 \<le> current_to_torque lg tm i))"
  by (simp add: current_to_torque_linear current_to_torque_log copysign_def)

theorem current_to_torque_regimes_witness:
  "current_to_torque (log 2)
     \<lparr>torque_constant = 1 / 2, current_cutoff_A = 2, current_scale = 1, torque_scale = 3\<rparr>
     (- 3) = - 4
   \<and> current_to_torque (log 2)
     \<lparr>torque_constant = 1 / 2, current_cutoff_A = 2, current_scale = 1, torque_scale = 3\<rparr>
     1 = 1 / 2"
proof -
  let ?tm = "\<lparr>torque_constant = 1 / 2, current_cutoff_A = 2, current_scale = 1,
              torque_scale = 3\<rparr>"
  have a: "\<not> \<bar>- 3 :: real\<bar> < current_cutoff_A ?tm" by simp
  have b: "\<bar>1 :: real\<bar> < current_cutoff_A ?tm" by simp
  from current_to_torque_regimes [of "- 3" ?tm "log 2"] a
  have "current_to_torque (log 2) ?tm (- 3) =
        (if (- 3 :: real) < 0 then -1 else 1) *
        \<bar>current_cutoff_A ?tm * torque_constant ?tm +
         torque_scale ?tm * log 2 (1 + (\<bar>- 3\<bar> - current_cutoff_A ?tm) * current_scale ?tm)\<bar>"
    by blast
  then have r1: "current_to_torque (log 2) ?tm (- 3) = - 4" by simp
  from current_to_torque_regimes [of 1 ?tm "log 2"] b
  have "current_to_torque (log 2) ?tm 1 = 1 * torque_constant ?tm" by blast
  then have r2: "current_to_torque (log 2) ?tm 1 = 1 / 2" by simp
  from r1 r2 show ?thesis by (rule conjI)
qed

section \<open>Equivalence of the two PID classes\<close>

text \<open>
  Claim C10. With \<open>ki_scale\<close> at its default \<^verbatim>\<open>1.0f\<close>, the \<open>Apply\<close> of the second PID class
  returns the same command and leaves the same state as the \<open>Apply\<close> of
  \<^verbatim>\<open>fw/simple_pid.h\<close>, for every configuration, starting state and input, in every
  arithmetic in which multiplying by one returns the other operand.
\<close>

theorem PID_Apply_equivalent:
  assumes one: "\<And>x. f_mul ops (f_of_int ops 1) x = x"
  shows "pid_Apply ops cfg st0 measured input_desired measured_rate input_desired_rate
           rate_hz \<lparr>kp_scale = kps, kd_scale = kds, ki_scale = f_of_int ops 1\<rparr>
       = simple_pid_Apply ops cfg st0 measured input_desired measured_rate
           input_desired_rate rate_hz \<lparr>kp_scale = kps, kd_scale = kds\<rparr>"
  by (simp add: pid_Apply_def simple_pid_Apply_def Let_def split_def one)

theorem PID_Apply_equivalent_witness:
  "pid_Apply real_ops
     \<lparr>kp = 2, ki = 4, kd = 1, iratelimit = - 1, ilimit = 10, max_desired_rate = 0,
      sign = - 1\<rparr>
     \<lparr>pid_integral = 0, pid_desired = 0, pid_error = 0, pid_error_rate = 0, pid_p = 0,
      pid_d = 0, pid_pd = 0, pid_command = 0\<rparr>
     1 0 3 1 2 \<lparr>kp_scale = 1, kd_scale = 1, ki_scale = 1\<rparr>
   = simple_pid_Apply real_ops
     \<lparr>kp = 2, ki = 4, kd = 1, iratelimit = - 1, ilimit = 10, max_desired_rate = 0,
      sign = - 1\<rparr>
     \<lparr>pid_integral = 0, pid_desired = 0, pid_error = 0, pid_error_rate = 0, pid_p = 0,
      pid_d = 0, pid_pd = 0, pid_command = 0\<rparr>
     1 0 3 1 2 \<lparr>kp_scale = 1, kd_scale = 1\<rparr>
   \<and> simple_pid_Apply real_ops
     \<lparr>kp = 2, ki = 4, kd = 1, iratelimit = - 1, ilimit = 10, max_desired_rate = 0,
      sign = - 1\<rparr>
     \<lparr>pid_integral = 0, pid_desired = 0, pid_error = 0, pid_error_rate = 0, pid_p = 0,
      pid_d = 0, pid_pd = 0, pid_command = 0\<rparr>
     1 0 3 1 2 \<lparr>kp_scale = 1, kd_scale = 1\<rparr>
   = (- 6, \<lparr>pid_integral = 2, pid_desired = 0, pid_error = 1, pid_error_rate = 2,
            pid_p = 2, pid_d = 2, pid_pd = 4, pid_command = - 6\<rparr>)"
proof -
  have one: "\<And>x. f_mul real_ops (f_of_int real_ops 1) x = x"
    by (simp add: real_ops_def)
  have k: "f_of_int real_ops 1 = 1" by (simp add: real_ops_def)
  note eq = PID_Apply_equivalent [of real_ops, OF one, unfolded k]
  have v: "simple_pid_Apply real_ops
     \<lparr>kp = 2, ki = 4, kd = 1, iratelimit = - 1, ilimit = 10, max_desired_rate = 0,
      sign = - 1\<rparr>
     \<lparr>pid_integral = 0, pid_desired = 0, pid_error = 0, pid_error_rate = 0, pid_p = 0,
      pid_d = 0, pid_pd = 0, pid_command = 0\<rparr>
     1 0 3 1 2 \<lparr>kp_scale = 1, kd_scale = 1\<rparr>
   = (- 6, \<lparr>pid_integral = 2, pid_desired = 0, pid_error = 1, pid_error_rate = 2,
            pid_p = 2, pid_d = 2, pid_pd = 4, pid_command = - 6\<rparr>)"
    by (simp add: simple_pid_Apply_def real_ops_def Let_def)
  from eq v show ?thesis by (intro conjI) simp_all
qed

end
